theory Spec2Isabelle
  imports Main "HOL-Library.AList" "HOL-Library.Sublist"
begin

section \<open>Python values, exceptions and responses\<close>

text \<open>
  The handlers build Python dicts and lists and hand them to \<^verbatim>\<open>jsonify\<close>. A value of
  \<open>pyval\<close> is such a Python value; a dict is an association list in insertion order.
\<close>

datatype pyval =
    PNone
  | PBool bool
  | PInt int
  | PStr string
  | PList "pyval list"
  | PDict "(pyval \<times> pyval) list"

text \<open>
  What a handler body can raise: \<^verbatim>\<open>abort(code)\<close> raises an HTTP exception carrying the
  status code; \<^verbatim>\<open>random.choice\<close> raises IndexError on an empty sequence;
  \<^verbatim>\<open>one_or_none\<close> raises MultipleResultsFound; reading an attribute of None raises
  AttributeError; the authorization check of the drinks API raises AuthError with an
  error document and a status code.
\<close>

datatype exn =
    HTTPException nat
  | IndexError
  | MultipleResultsFound
  | AttributeError
  | AuthError pyval nat

text \<open>
  A response is a body and a status code. The body is the JSON document given to
  \<^verbatim>\<open>jsonify\<close>, or the framework's own error page when no error handler is registered.
\<close>

datatype body = Json pyval | DefaultErrorPage

type_synonym response = "body \<times> nat"

definition abort :: "nat \<Rightarrow> exn + 'a" where
  "abort code = Inl (HTTPException code)"

definition jsonify :: "(pyval \<times> pyval) list \<Rightarrow> exn + pyval" where
  "jsonify d = Inr (PDict d)"

text \<open>
  \<^verbatim>\<open>try: body  except: handler\<close> with a bare except, over a body that may have
  changed the store before it raised: every exception of the body, the HTTP exceptions
  of \<^verbatim>\<open>abort\<close> included, is replaced by the handler's outcome.
\<close>

definition try_except ::
  "(exn + 'a) \<times> 's \<Rightarrow> ('s \<Rightarrow> (exn + 'a) \<times> 's) \<Rightarrow> (exn + 'a) \<times> 's" where
  "try_except b h = (case b of (Inl e, s) \<Rightarrow> h s | (Inr v, s) \<Rightarrow> (Inr v, s))"

text \<open>
  \<^verbatim>\<open>random.choice(seq)\<close>: IndexError on an empty sequence, otherwise the element at a
  position drawn by the random source; \<open>rnd\<close> is that draw.
\<close>

definition random_choice :: "nat \<Rightarrow> 'a list \<Rightarrow> exn + 'a" where
  "random_choice rnd xs = (if xs = [] then Inl IndexError else Inr (xs ! (rnd mod length xs)))"

section \<open>Python list slicing\<close>

text \<open>
  \<^verbatim>\<open>xs[start:stop]\<close> on a list, step 1: an index below zero counts from the end, then
  both indices are clamped into \<open>0..len\<close>; the slice is empty unless the adjusted start
  is below the adjusted stop.
\<close>

definition adjust_index :: "int \<Rightarrow> int \<Rightarrow> int" where
  "adjust_index i n =
     (if i < 0 then (if i + n < 0 then 0 else i + n)
      else if n \<le> i then n else i)"

definition py_slice :: "'a list \<Rightarrow> int \<Rightarrow> int \<Rightarrow> 'a list" where
  "py_slice xs start stop =
     (let n = int (length xs);
          lo = adjust_index start n;
          hi = adjust_index stop n
      in if lo < hi then map (\<lambda>i. xs ! i) [nat lo ..< nat hi] else [])"

section \<open>The trivia API: data model\<close>

text \<open>
  Modelled from the spec: models.py (Question, Category, their \<^verbatim>\<open>format\<close>,
  \<^verbatim>\<open>insert\<close>, \<^verbatim>\<open>delete\<close> and the query interface) is not among the sources. A
  question has an auto-assigned unique id, question text, answer text, a category and a
  difficulty; a category has an id and a type name. The columns other than the id are
  nullable here, because \<^verbatim>\<open>create_questions\<close> passes None for every field the request
  body lacks. The database is the two tables, each a list of rows in storage order.
\<close>

record question =
  q_id :: int
  q_question :: "string option"
  q_answer :: "string option"
  q_category :: "int option"
  q_difficulty :: "int option"

record category =
  c_id :: int
  c_type :: string

record db =
  questions :: "question list"
  categories :: "category list"

definition opt_str :: "string option \<Rightarrow> pyval" where
  "opt_str v = (case v of None \<Rightarrow> PNone | Some s \<Rightarrow> PStr s)"

definition opt_int :: "int option \<Rightarrow> pyval" where
  "opt_int v = (case v of None \<Rightarrow> PNone | Some i \<Rightarrow> PInt i)"

text \<open>Modelled from the spec: \<^verbatim>\<open>Question.format\<close>, the row as a dict of its columns.\<close>

definition format :: "question \<Rightarrow> pyval" where
  "format q = PDict
     [(PStr ''id'', PInt (q_id q)),
      (PStr ''question'', opt_str (q_question q)),
      (PStr ''answer'', opt_str (q_answer q)),
      (PStr ''category'', opt_int (q_category q)),
      (PStr ''difficulty'', opt_int (q_difficulty q))]"

text \<open>Modelled from the spec: \<^verbatim>\<open>order_by(Question.id)\<close>, ordered retrieval.\<close>

definition order_by_id :: "question list \<Rightarrow> question list" where
  "order_by_id qs = sort_key q_id qs"

text \<open>
  Modelled from the spec: \<^verbatim>\<open>one_or_none\<close>, single-entity lookup: None for no row, the
  row when there is exactly one, MultipleResultsFound otherwise.
\<close>

fun one_or_none :: "'a list \<Rightarrow> exn + 'a option" where
  "one_or_none [] = Inr None"
| "one_or_none [x] = Inr (Some x)"
| "one_or_none (x # y # zs) = Inl MultipleResultsFound"

section \<open>The trivia API: requests and pagination\<close>

text \<open>
  The request: \<open>args_page\<close> is the query parameter \<^verbatim>\<open>page\<close> read with
  \<^verbatim>\<open>type=int\<close>, None when the parameter is absent or is not an integer (the default
  is used in both cases); \<open>get_json\<close> is the decoded body.
\<close>

record 'b request =
  args_page :: "int option"
  get_json :: 'b

definition QUESTIONS_PER_PAGE :: int where
  "QUESTIONS_PER_PAGE = 10"

definition page_arg :: "'b request \<Rightarrow> int" where
  "page_arg request = (case args_page request of None \<Rightarrow> 1 | Some p \<Rightarrow> p)"

definition paginated_questions :: "'b request \<Rightarrow> question list \<Rightarrow> pyval list" where
  "paginated_questions request selection =
     (let page = page_arg request;
          start = (page - 1) * QUESTIONS_PER_PAGE;
          stop = start + QUESTIONS_PER_PAGE;
          qs = map format selection;
          current_questions = py_slice qs start stop
      in current_questions)"

section \<open>The trivia API: data access\<close>

text \<open>
  Modelled from the spec: \<^verbatim>\<open>Question.delete\<close>, which removes the row of that primary
  key, and \<^verbatim>\<open>Question.insert\<close>, which stores a new row under a fresh id.
\<close>

definition question_delete :: "question \<Rightarrow> db \<Rightarrow> db" where
  "question_delete q d = d\<lparr>questions := filter (\<lambda>r. q_id r \<noteq> q_id q) (questions d)\<rparr>"

definition fresh_id :: "question list \<Rightarrow> int" where
  "fresh_id qs = fold max (map q_id qs) 0 + 1"

definition question_insert ::
  "string option \<Rightarrow> string option \<Rightarrow> int option \<Rightarrow> int option \<Rightarrow> db \<Rightarrow> db" where
  "question_insert qu an di ca d =
     d\<lparr>questions := questions d @
        [\<lparr>q_id = fresh_id (questions d), q_question = qu, q_answer = an,
          q_category = ca, q_difficulty = di\<rparr>]\<rparr>"


subsection \<open>ILIKE\<close>

text \<open>
  \<^verbatim>\<open>column.ilike(pattern)\<close> is SQL's case-insensitive LIKE. In the pattern \<open>%\<close>
  matches any run of characters, \<open>_\<close> matches any one character, and the backslash
  (the default escape character of PostgreSQL, the store the tests configure) makes the
  character after it literal. Both sides are lower-cased first. A NULL column matches
  nothing. The handler's patterns end in \<open>%\<close>, so a pattern never ends in a lone
  escape character; the matcher answers False there.
\<close>

definition lower_char :: "char \<Rightarrow> char" where
  "lower_char c =
     (case map_of (zip ''ABCDEFGHIJKLMNOPQRSTUVWXYZ'' ''abcdefghijklmnopqrstuvwxyz'') c of
        None \<Rightarrow> c
      | Some l \<Rightarrow> l)"

definition lower :: "string \<Rightarrow> string" where
  "lower s = map lower_char s"

fun like_match :: "string \<Rightarrow> string \<Rightarrow> bool" where
  "like_match [] s = (s = [])"
| "like_match (p # ps) [] = (p = CHR ''%'' \<and> like_match ps [])"
| "like_match (p # ps) (x # xs) =
     (if p = CHR ''%'' then like_match ps (x # xs) \<or> like_match (p # ps) xs
      else if p = CHR ''_'' then like_match ps xs
      else if p = CHR 0x5C then
        (case ps of [] \<Rightarrow> False | c # ps' \<Rightarrow> x = c \<and> like_match ps' xs)
      else x = p \<and> like_match ps xs)"

definition ilike :: "string option \<Rightarrow> string \<Rightarrow> bool" where
  "ilike col pattern =
     (case col of None \<Rightarrow> False | Some s \<Rightarrow> like_match (lower pattern) (lower s))"

section \<open>The trivia API: handlers\<close>

text \<open>Returns the \<open>{id: type}\<close> dictionary of the categories.\<close>

definition get_categories :: "db \<Rightarrow> (pyval \<times> pyval) list" where
  "get_categories d =
     fold (\<lambda>category categories_dict.
             AList.update (PInt (c_id category)) (PStr (c_type category)) categories_dict)
       (sort_key c_id (categories d)) []"

definition retrieve_categories :: "db \<Rightarrow> exn + pyval" where
  "retrieve_categories d =
     (let cats = get_categories d
      in if length cats = 0 then abort 404
         else jsonify [(PStr ''success'', PBool True), (PStr ''categories'', PDict cats)])"

definition retrieve_questions :: "'b request \<Rightarrow> db \<Rightarrow> exn + pyval" where
  "retrieve_questions request d =
     (let selection = order_by_id (questions d);
          current_questions = paginated_questions request selection
      in if length current_questions = 0 then abort 404
         else jsonify
           [(PStr ''success'', PBool True),
            (PStr ''questions'', PList current_questions),
            (PStr ''total_questions'', PInt (int (length (questions d)))),
            (PStr ''categories'', PDict (get_categories d)),
            (PStr ''current_category'', PStr ''All'')])"

text \<open>
  The body of the \<^verbatim>\<open>try\<close> block of \<^verbatim>\<open>delete_question\<close>, then the handler with
  its bare \<^verbatim>\<open>except\<close>.
\<close>

definition delete_question_try :: "'b request \<Rightarrow> int \<Rightarrow> db \<Rightarrow> (exn + pyval) \<times> db" where
  "delete_question_try request question_id d =
     (case one_or_none (filter (\<lambda>q. q_id q = question_id) (questions d)) of
        Inl e \<Rightarrow> (Inl e, d)
      | Inr None \<Rightarrow> (abort 404, d)
      | Inr (Some question) \<Rightarrow>
          (let d' = question_delete question d;
               selection = order_by_id (questions d');
               current_questions = paginated_questions request selection
           in (jsonify [(PStr ''success'', PBool True), (PStr ''deleted'', PInt question_id)],
               d')))"

definition delete_question :: "'b request \<Rightarrow> int \<Rightarrow> db \<Rightarrow> (exn + pyval) \<times> db" where
  "delete_question request question_id d =
     try_except (delete_question_try request question_id d) (\<lambda>d'. (abort 422, d'))"

text \<open>
  The body of \<^verbatim>\<open>POST /questions\<close>: each field is None when the body lacks its key.
\<close>

record question_body =
  b_question :: "string option"
  b_answer :: "string option"
  b_difficulty :: "int option"
  b_category :: "int option"
  b_searchTerm :: "string option"

text \<open>Truth value of \<^verbatim>\<open>if search:\<close>: None and the empty string are false.\<close>

fun truthy :: "string option \<Rightarrow> bool" where
  "truthy None = False"
| "truthy (Some s) = (s \<noteq> [])"

text \<open>\<^verbatim>\<open>"%{}%".format(search)\<close>\<close>

fun format_pattern :: "string option \<Rightarrow> string" where
  "format_pattern None = ''%None%''"
| "format_pattern (Some s) = ''%'' @ s @ ''%''"

definition create_questions :: "question_body request \<Rightarrow> db \<Rightarrow> (exn + pyval) \<times> db" where
  "create_questions request d =
     (let body = get_json request;
          new_question = b_question body;
          new_answer = b_answer body;
          new_difficulty = b_difficulty body;
          new_category = b_category body;
          search = b_searchTerm body
      in try_except
           (if truthy search then
              (let selection = filter (\<lambda>q. ilike (q_question q) (format_pattern search))
                                 (order_by_id (questions d));
                   current_questions = paginated_questions request selection
               in (jsonify
                     [(PStr ''success'', PBool True),
                      (PStr ''questions'', PList current_questions),
                      (PStr ''total_questions'', PInt (int (length selection))),
                      (PStr ''current_category'', PStr ''All'')],
                   d))
            else
              (let d' = question_insert new_question new_answer new_difficulty new_category d;
                   selection = order_by_id (questions d');
                   current_questions = paginated_questions request selection
               in (jsonify [(PStr ''success'', PBool True)], d')))
           (\<lambda>d'. (abort 422, d')))"


text \<open>
  The body of \<^verbatim>\<open>POST /quizzes\<close>, for a well-formed request: the list of previous
  question ids and the id of the quiz category. The test \<^verbatim>\<open>rand_question == None\<close>
  after the choice never holds, since the choice is made among rows.
\<close>

record quiz_body =
  previous_questions :: "int list"
  quiz_category_id :: int

definition create_quiz :: "nat \<Rightarrow> quiz_body request \<Rightarrow> db \<Rightarrow> exn + pyval" where
  "create_quiz rnd request d =
     (let body = get_json request;
          prev_questions = previous_questions body;
          category_id = quiz_category_id body
      in case (if category_id = 0 then
                 random_choice rnd
                   (filter (\<lambda>q. q_id q \<notin> set prev_questions) (questions d))
               else
                 random_choice rnd
                   (filter (\<lambda>q. q_category q = Some category_id \<and> q_id q \<notin> set prev_questions)
                      (questions d))) of
           Inl e \<Rightarrow> Inl e
         | Inr rand_question \<Rightarrow>
             jsonify [(PStr ''success'', PBool True), (PStr ''question'', format rand_question)])"

subsection \<open>Error handlers and the response of a request\<close>

definition error_envelope :: "nat \<Rightarrow> string \<Rightarrow> response" where
  "error_envelope code msg =
     (Json (PDict [(PStr ''success'', PBool False), (PStr ''error'', PInt (int code)),
                   (PStr ''message'', PStr msg)]), code)"

definition not_found :: response where
  "not_found = error_envelope 404 ''resource not found''"

definition unprocessable :: response where
  "unprocessable = error_envelope 422 ''unprocessable''"

definition bad_request :: response where
  "bad_request = error_envelope 400 ''bad request''"

definition internal_server_error :: response where
  "internal_server_error = error_envelope 500 ''internal server error''"

text \<open>
  What the framework answers for a handler's outcome: 200 with the document for a
  returned value; the registered error handler for an HTTP exception (the framework's
  own page when none is registered for its code); the 500 handler for any other
  exception.
\<close>

definition trivia_response :: "exn + pyval \<Rightarrow> response" where
  "trivia_response r =
     (case r of
        Inr v \<Rightarrow> (Json v, 200)
      | Inl (HTTPException code) \<Rightarrow>
          (if code = 404 then not_found
           else if code = 422 then unprocessable
           else if code = 400 then bad_request
           else if code = 500 then internal_server_error
           else (DefaultErrorPage, code))
      | Inl _ \<Rightarrow> internal_server_error)"

text \<open>The value under a key of the JSON document of a response, when there is one.\<close>

definition response_field :: "string \<Rightarrow> response \<Rightarrow> pyval option" where
  "response_field k r = (case fst r of Json (PDict kv) \<Rightarrow> map_of kv (PStr k) | _ \<Rightarrow> None)"

section \<open>The search match in the spec's words\<close>

text \<open>
  The spec's search match: the question text contains the term as a case-insensitive
  substring. A question without text contains nothing. The characters with a meaning of
  their own in a LIKE pattern are the two wildcards and the escape character.
\<close>

definition contains_ci :: "string \<Rightarrow> string option \<Rightarrow> bool" where
  "contains_ci t col = (case col of None \<Rightarrow> False | Some s \<Rightarrow> sublist (lower t) (lower s))"

definition like_special :: "char \<Rightarrow> bool" where
  "like_special c = (c = CHR ''%'' \<or> c = CHR ''_'' \<or> c = CHR 0x5C)"

section \<open>The drinks API\<close>

text \<open>
  Modelled from the spec: database/models.py (Drink with \<^verbatim>\<open>long\<close>, \<^verbatim>\<open>update\<close>,
  \<^verbatim>\<open>delete\<close>) and auth/auth.py (\<^verbatim>\<open>requires_auth\<close>, AuthError) are not among the
  sources. A drink has an id, a title and a recipe. The recipe column holds the JSON text
  of a value, which the long representation decodes again; the model keeps the value.
  The store is the list of rows. \<^verbatim>\<open>update\<close> writes the changed row back under its id,
  \<^verbatim>\<open>delete\<close> removes the row of that id.
\<close>

record drink =
  d_id :: int
  d_title :: "string option"
  d_recipe :: pyval

definition long :: "drink \<Rightarrow> pyval" where
  "long dr = PDict
     [(PStr ''id'', PInt (d_id dr)), (PStr ''title'', opt_str (d_title dr)),
      (PStr ''recipe'', d_recipe dr)]"

definition drink_update :: "drink \<Rightarrow> drink list \<Rightarrow> drink list" where
  "drink_update dr ds = map (\<lambda>x. if d_id x = d_id dr then dr else x) ds"

definition drink_delete :: "drink \<Rightarrow> drink list \<Rightarrow> drink list" where
  "drink_delete dr ds = filter (\<lambda>x. d_id x \<noteq> d_id dr) ds"

text \<open>
  Modelled from the spec: the authorization collaborator, an opaque bearer-token check
  performed before the handler body runs. Its outcome is a parameter: None when the token
  carries the permission, otherwise the AuthError that the check raises.
\<close>

definition requires_auth ::
  "exn option \<Rightarrow> ('s \<Rightarrow> (exn + 'a) \<times> 's) \<Rightarrow> 's \<Rightarrow> (exn + 'a) \<times> 's" where
  "requires_auth check f s = (case check of Some e \<Rightarrow> (Inl e, s) | None \<Rightarrow> f s)"

text \<open>The body of \<^verbatim>\<open>PATCH /drinks/{id}\<close>: \<^verbatim>\<open>body.get\<close> gives None for a missing key.\<close>

record drink_body =
  b_title :: "string option"
  b_recipe :: pyval

definition update_drinks ::
  "exn option \<Rightarrow> drink_body request \<Rightarrow> int \<Rightarrow> drink list \<Rightarrow> (exn + pyval) \<times> drink list" where
  "update_drinks auth request drink_id =
     requires_auth auth (\<lambda>ds.
       case one_or_none (filter (\<lambda>x. d_id x = drink_id) ds) of
         Inl e \<Rightarrow> (Inl e, ds)
       | Inr None \<Rightarrow> (abort 404, ds)
       | Inr (Some drink) \<Rightarrow>
           try_except
             (let body = get_json request;
                  drink' = drink\<lparr>d_title := b_title body, d_recipe := b_recipe body\<rparr>;
                  ds' = drink_update drink' ds;
                  drink_list = [] @ [long drink']
              in (jsonify [(PStr ''success'', PBool True), (PStr ''drinks'', PList drink_list)],
                  ds'))
             (\<lambda>ds'. (abort 422, ds')))"

definition delete_drinks ::
  "exn option \<Rightarrow> 'b request \<Rightarrow> int \<Rightarrow> drink list \<Rightarrow> (exn + pyval) \<times> drink list" where
  "delete_drinks auth request drink_id =
     requires_auth auth (\<lambda>ds.
       case one_or_none (filter (\<lambda>x. d_id x = drink_id) ds) of
         Inl e \<Rightarrow> (Inl e, ds)
       | Inr None \<Rightarrow> (abort 404, ds)
       | Inr (Some drink) \<Rightarrow>
           try_except
             (let ds' = drink_delete drink ds
              in (jsonify [(PStr ''success'', PBool True), (PStr ''delete'', PInt (d_id drink))],
                  ds'))
             (\<lambda>ds'. (abort 422, ds')))"

text \<open>
  The drinks API registers handlers for 422, for 404 and for AuthError, which answers
  the error document and status code of the exception; anything else gets the
  framework's own page.
\<close>

definition drinks_response :: "exn + pyval \<Rightarrow> response" where
  "drinks_response r =
     (case r of
        Inr v \<Rightarrow> (Json v, 200)
      | Inl (HTTPException code) \<Rightarrow>
          (if code = 422 then unprocessable
           else if code = 404 then not_found
           else (DefaultErrorPage, code))
      | Inl (AuthError err status_code) \<Rightarrow> (Json err, status_code)
      | Inl _ \<Rightarrow> (DefaultErrorPage, 500))"

section \<open>Sample data\<close>

text \<open>
  A store of twelve questions, eleven of category 1 and one of category 2, over two
  categories; stores of one question and of none; a store whose only question names a
  category without a row; and requests for given pages.
\<close>

definition sample_question :: "int \<Rightarrow> string \<Rightarrow> int \<Rightarrow> question" where
  "sample_question i txt c =
     \<lparr>q_id = i, q_question = Some txt, q_answer = Some ''yes'', q_category = Some c,
      q_difficulty = Some 1\<rparr>"

definition sample_questions :: "question list" where
  "sample_questions =
     [sample_question 1 ''Is water wet?'' 1,
      sample_question 2 ''Is fire hot?'' 1,
      sample_question 3 ''What is the TITLE of this book?'' 1,
      sample_question 4 ''Is ice cold?'' 1,
      sample_question 5 ''Is 100% a percentage?'' 1,
      sample_question 6 ''Is snow white?'' 1,
      sample_question 7 ''Is coal black?'' 1,
      sample_question 8 ''Which title won?'' 1,
      sample_question 9 ''Is grass green?'' 1,
      sample_question 10 ''Is the sky blue?'' 1,
      sample_question 11 ''Is salt salty?'' 1,
      sample_question 12 ''Is art long?'' 2]"

definition sample_db :: db where
  "sample_db =
     \<lparr>questions = sample_questions,
      categories = [\<lparr>c_id = 1, c_type = ''Science''\<rparr>, \<lparr>c_id = 2, c_type = ''Art''\<rparr>]\<rparr>"

definition tiny_db :: db where
  "tiny_db =
     \<lparr>questions = [sample_question 1 ''abc'' 1],
      categories = [\<lparr>c_id = 1, c_type = ''Science''\<rparr>]\<rparr>"

definition empty_db :: db where
  "empty_db = \<lparr>questions = [], categories = [\<lparr>c_id = 1, c_type = ''Science''\<rparr>]\<rparr>"


definition page_request :: "int option \<Rightarrow> unit request" where
  "page_request p = \<lparr>args_page = p, get_json = ()\<rparr>"

definition search_request :: "string \<Rightarrow> question_body request" where
  "search_request t =
     \<lparr>args_page = None,
      get_json = \<lparr>b_question = None, b_answer = None, b_difficulty = None, b_category = None,
                  b_searchTerm = Some t\<rparr>\<rparr>"

definition quiz_request :: "int list \<Rightarrow> int \<Rightarrow> quiz_body request" where
  "quiz_request prev c =
     \<lparr>args_page = None, get_json = \<lparr>previous_questions = prev, quiz_category_id = c\<rparr>\<rparr>"

definition sample_drinks :: "drink list" where
  "sample_drinks =
     [\<lparr>d_id = 1, d_title = Some ''water'',
        d_recipe = PList [PDict [(PStr ''name'', PStr ''water''), (PStr ''color'', PStr ''blue''),
                                 (PStr ''parts'', PInt 1)]]\<rparr>,
      \<lparr>d_id = 2, d_title = Some ''latte'',
        d_recipe = PList [PDict [(PStr ''name'', PStr ''milk''), (PStr ''color'', PStr ''white''),
                                 (PStr ''parts'', PInt 3)]]\<rparr>]"

definition patch_request :: "string \<Rightarrow> drink_body request" where
  "patch_request t = \<lparr>args_page = None, get_json = \<lparr>b_title = Some t, b_recipe = PList []\<rparr>\<rparr>"

section \<open>Slicing lemmas\<close>

lemma map_nth_upt_take_drop:
  "b \<le> length xs \<Longrightarrow> map (\<lambda>i. xs ! i) [a ..< b] = take (b - a) (drop a xs)"
proof (induction xs arbitrary: a b)
  case Nil
  then show ?case by simp
next
  case (Cons x xs)
  show ?case
  proof (cases "a < b")
    case False
    then show ?thesis by simp
  next
    case True
    then obtain b' where b: "b = Suc b'" by (cases b) auto
    show ?thesis
    proof (cases a)
      case 0
      have "map (\<lambda>i. (x # xs) ! i) [0 ..< Suc b'] = x # map (\<lambda>i. xs ! i) [0 ..< b']"
        by (simp add: upt_conv_Cons map_Suc_upt [symmetric] del: upt_Suc)
      moreover have "map (\<lambda>i. xs ! i) [0 ..< b'] = take (b' - 0) (drop 0 xs)"
        using Cons.prems b by (intro Cons.IH) simp
      ultimately show ?thesis using 0 b by simp
    next
      case (Suc a')
      have "map (\<lambda>i. (x # xs) ! i) [Suc a' ..< Suc b'] = map (\<lambda>i. xs ! i) [a' ..< b']"
        by (simp add: map_Suc_upt [symmetric] del: upt_Suc)
      moreover have "map (\<lambda>i. xs ! i) [a' ..< b'] = take (b' - a') (drop a' xs)"
        using Cons.prems b by (intro Cons.IH) simp
      ultimately show ?thesis using Suc b by simp
    qed
  qed
qed

lemma py_slice_take_drop:
  "py_slice xs start stop =
     take (nat (adjust_index stop (int (length xs))) - nat (adjust_index start (int (length xs))))
       (drop (nat (adjust_index start (int (length xs)))) xs)"
proof -
  have "nat (adjust_index stop (int (length xs))) \<le> length xs"
    unfolding adjust_index_def by (auto split: if_splits)
  then show ?thesis
    by (auto simp: py_slice_def Let_def map_nth_upt_take_drop)
qed

lemma py_slice_nonneg:
  assumes "0 \<le> start" "start \<le> stop"
  shows "py_slice xs start stop = take (nat (stop - start)) (drop (nat start) xs)"
proof (cases "int (length xs) \<le> start")
  case True
  then show ?thesis using assms
    by (simp add: py_slice_take_drop adjust_index_def)
next
  case False
  show ?thesis
  proof (cases "int (length xs) \<le> stop")
    case True
    with False assms show ?thesis
      by (simp add: py_slice_take_drop adjust_index_def)
  next
    case stop: False
    with False assms have "nat stop - nat start = nat (stop - start)" by linarith
    with False stop assms show ?thesis
      by (simp add: py_slice_take_drop adjust_index_def)
  qed
qed

lemma length_py_slice:
  "start \<le> stop \<Longrightarrow> length (py_slice xs start stop) \<le> nat (stop - start)"
  by (auto simp: py_slice_take_drop adjust_index_def)

lemma py_slice_beyond:
  "int (length xs) \<le> start \<Longrightarrow> start \<le> stop \<Longrightarrow> py_slice xs start stop = []"
  by (auto simp: py_slice_def adjust_index_def Let_def)

section \<open>Pagination and the question list\<close>

lemma length_paginated_questions: "length (paginated_questions request selection) \<le> 10"
  using length_py_slice [of "(page_arg request - 1) * 10" "(page_arg request - 1) * 10 + 10" "map format selection"]
  by (simp add: paginated_questions_def QUESTIONS_PER_PAGE_def Let_def)

lemma paginated_questions_beyond:
  "int (length selection) \<le> (page_arg request - 1) * 10 \<Longrightarrow> paginated_questions request selection = []"
  by (simp add: paginated_questions_def QUESTIONS_PER_PAGE_def Let_def py_slice_beyond)

text \<open>
  C1: for every requested page number \<open>p\<close> (1 when the parameter is absent) and every
  sequence of entities, the pagination helper returns the slice of the formatted
  sequence from index \<open>(p - 1) * 10\<close> inclusive to \<open>(p - 1) * 10 + 10\<close> exclusive: for
  \<open>p \<ge> 1\<close> that is ten elements taken after dropping \<open>(p - 1) * 10\<close>; for \<open>p = 0\<close>
  the slice \<open>[-10:0]\<close> is empty; for \<open>p < 0\<close> both indices are negative and count
  from the end of the sequence, as Python slices do. In every case it returns at most 10
  items, and a page whose start index is at or beyond the length of the sequence is
  empty. The helper is a function of the request and the selection alone: it touches no
  store.
\<close>

theorem paginated_questions_slice:
  "(1 \<le> page_arg request \<longrightarrow>
      paginated_questions request selection =
        take 10 (drop (nat ((page_arg request - 1) * 10)) (map format selection)))
   \<and> (args_page request = None \<longrightarrow>
      paginated_questions request selection = take 10 (map format selection))
   \<and> (page_arg request = 0 \<longrightarrow> paginated_questions request selection = [])
   \<and> (page_arg request < 0 \<longrightarrow>
      paginated_questions request selection =
        take (nat (int (length selection) + page_arg request * 10)
                - nat (int (length selection) + (page_arg request - 1) * 10))
          (drop (nat (int (length selection) + (page_arg request - 1) * 10))
             (map format selection)))
   \<and> length (paginated_questions request selection) \<le> 10
   \<and> (int (length selection) \<le> (page_arg request - 1) * 10 \<longrightarrow>
      paginated_questions request selection = [])"
proof (intro conjI impI)
  assume "1 \<le> page_arg request"
  then show "paginated_questions request selection =
        take 10 (drop (nat ((page_arg request - 1) * 10)) (map format selection))"
    by (simp add: paginated_questions_def QUESTIONS_PER_PAGE_def Let_def py_slice_nonneg)
next
  assume "args_page request = None"
  then have "page_arg request = 1" by (simp add: page_arg_def)
  then show "paginated_questions request selection = take 10 (map format selection)"
    by (simp add: paginated_questions_def QUESTIONS_PER_PAGE_def Let_def py_slice_nonneg)
next
  assume "page_arg request = 0"
  then show "paginated_questions request selection = []"
    by (simp add: paginated_questions_def QUESTIONS_PER_PAGE_def Let_def py_slice_def
        adjust_index_def)
next
  assume "page_arg request < 0"
  then show "paginated_questions request selection =
        take (nat (int (length selection) + page_arg request * 10)
                - nat (int (length selection) + (page_arg request - 1) * 10))
          (drop (nat (int (length selection) + (page_arg request - 1) * 10))
             (map format selection))"
    by (simp add: paginated_questions_def QUESTIONS_PER_PAGE_def Let_def py_slice_take_drop
        adjust_index_def algebra_simps)
next
  show "length (paginated_questions request selection) \<le> 10"
    by (rule length_paginated_questions)
next
  assume "int (length selection) \<le> (page_arg request - 1) * 10"
  then show "paginated_questions request selection = []"
    by (rule paginated_questions_beyond)
qed


theorem paginated_questions_slice_witness:
  "1 \<le> page_arg (page_request (Some 2))
   \<and> paginated_questions (page_request (Some 2)) sample_questions =
        take 10 (drop 10 (map format sample_questions))
   \<and> args_page (page_request None) = None
   \<and> paginated_questions (page_request None) sample_questions =
        take 10 (map format sample_questions)
   \<and> page_arg (page_request (Some 0)) = 0
   \<and> paginated_questions (page_request (Some 0)) sample_questions = []
   \<and> page_arg (page_request (Some (- 1))) < 0
   \<and> paginated_questions (page_request (Some (- 1))) sample_questions =
        take 2 (map format sample_questions)
   \<and> int (length sample_questions) \<le> (page_arg (page_request (Some 3)) - 1) * 10
   \<and> paginated_questions (page_request (Some 3)) sample_questions = []"
  using paginated_questions_slice [of "page_request (Some 2)" sample_questions]
    paginated_questions_slice [of "page_request None" sample_questions]
    paginated_questions_slice [of "page_request (Some 0)" sample_questions]
    paginated_questions_slice [of "page_request (Some (- 1))" sample_questions]
    paginated_questions_slice [of "page_request (Some 3)" sample_questions]
  by (simp add: page_request_def page_arg_def sample_questions_def)

lemma length_order_by_id: "length (order_by_id qs) = length qs"
  by (simp add: order_by_id_def)

text \<open>
  C7: for every page number whose page is non-empty, \<^verbatim>\<open>GET /questions?page=N\<close> answers
  200 with that page, of at most 10 questions, and with \<open>total_questions\<close> equal to the
  number of all questions in the store, not to the length of the page.
\<close>

theorem retrieve_questions_page_and_total:
  assumes "paginated_questions request (order_by_id (questions d)) \<noteq> []"
  shows "trivia_response (retrieve_questions request d) =
           (Json (PDict
              [(PStr ''success'', PBool True),
               (PStr ''questions'',
                  PList (paginated_questions request (order_by_id (questions d)))),
               (PStr ''total_questions'', PInt (int (length (questions d)))),
               (PStr ''categories'', PDict (get_categories d)),
               (PStr ''current_category'', PStr ''All'')]), 200)
         \<and> length (paginated_questions request (order_by_id (questions d))) \<le> 10"
  using assms
  by (simp add: retrieve_questions_def trivia_response_def jsonify_def Let_def
      length_paginated_questions)

theorem retrieve_questions_page_and_total_witness:
  "paginated_questions (page_request (Some 2)) (order_by_id (questions sample_db)) \<noteq> []
   \<and> snd (trivia_response (retrieve_questions (page_request (Some 2)) sample_db)) = 200
   \<and> length (paginated_questions (page_request (Some 2)) (order_by_id (questions sample_db))) = 2
   \<and> length (questions sample_db) = 12"
proof -
  have ne: "paginated_questions (page_request (Some 2)) (order_by_id (questions sample_db)) \<noteq> []"
    by (simp add: paginated_questions_def page_request_def page_arg_def QUESTIONS_PER_PAGE_def
        py_slice_def adjust_index_def order_by_id_def sample_db_def sample_questions_def
        sample_question_def)
  have len: "length (paginated_questions (page_request (Some 2)) (order_by_id (questions sample_db))) = 2"
    by (simp add: paginated_questions_def page_request_def page_arg_def QUESTIONS_PER_PAGE_def
        py_slice_def adjust_index_def order_by_id_def sample_db_def sample_questions_def
        sample_question_def)
  from retrieve_questions_page_and_total [OF ne] ne len show ?thesis
    by (simp add: sample_db_def sample_questions_def)
qed

text \<open>
  C8: for every page number beyond the last non-empty page, that is, whose start index
  \<open>(N - 1) * 10\<close> is at or beyond the number of stored questions,
  \<^verbatim>\<open>GET /questions?page=N\<close> answers 404 with the resource-not-found envelope: the
  handler turns the empty page of the pagination helper into NotFound.
\<close>

theorem retrieve_questions_beyond_last_page:
  assumes "int (length (questions d)) \<le> (page_arg request - 1) * 10"
  shows "trivia_response (retrieve_questions request d) =
           (Json (PDict
              [(PStr ''success'', PBool False), (PStr ''error'', PInt 404),
               (PStr ''message'', PStr ''resource not found'')]), 404)"
proof -
  have "paginated_questions request (order_by_id (questions d)) = []"
    using assms by (intro paginated_questions_beyond) (simp add: length_order_by_id)
  then show ?thesis
    by (simp add: retrieve_questions_def trivia_response_def abort_def Let_def not_found_def
        error_envelope_def)
qed

theorem retrieve_questions_beyond_last_page_witness:
  "int (length (questions sample_db)) \<le> (page_arg (page_request (Some 1000)) - 1) * 10
   \<and> trivia_response (retrieve_questions (page_request (Some 1000)) sample_db) =
       (Json (PDict
          [(PStr ''success'', PBool False), (PStr ''error'', PInt 404),
           (PStr ''message'', PStr ''resource not found'')]), 404)"
proof -
  have h: "int (length (questions sample_db)) \<le> (page_arg (page_request (Some 1000)) - 1) * 10"
    by (simp add: sample_db_def sample_questions_def page_request_def page_arg_def)
  from retrieve_questions_beyond_last_page [OF h] h show ?thesis by simp
qed

section \<open>Deleting a question\<close>

lemma filter_absent_id: "i \<notin> f ` set xs \<Longrightarrow> filter (\<lambda>x. f x = i) xs = []"
  by (induction xs) auto

lemma filter_unique_id:
  "distinct (map f xs) \<Longrightarrow> i \<in> f ` set xs \<Longrightarrow> \<exists>x. x \<in> set xs \<and> f x = i \<and> filter (\<lambda>y. f y = i) xs = [x]"
proof (induction xs)
  case Nil
  then show ?case by simp
next
  case (Cons a xs)
  show ?case
  proof (cases "f a = i")
    case True
    with Cons.prems have "i \<notin> f ` set xs" by auto
    then have "filter (\<lambda>y. f y = i) xs = []" by (rule filter_absent_id)
    with True show ?thesis by auto
  next
    case False
    with Cons.prems have "distinct (map f xs)" "i \<in> f ` set xs" by auto
    from Cons.IH [OF this] False show ?thesis by auto
  qed
qed

lemma delete_question_try_absent:
  "question_id \<notin> q_id ` set (questions d) \<Longrightarrow>
     delete_question_try request question_id d = (Inl (HTTPException 404), d)"
  by (simp add: delete_question_try_def filter_absent_id abort_def)

lemma delete_question_try_present:
  assumes "distinct (map q_id (questions d))" "question_id \<in> q_id ` set (questions d)"
  shows "delete_question_try request question_id d =
           (Inr (PDict [(PStr ''success'', PBool True), (PStr ''deleted'', PInt question_id)]),
            d\<lparr>questions := filter (\<lambda>q. q_id q \<noteq> question_id) (questions d)\<rparr>)"
proof -
  from filter_unique_id [OF assms] obtain x where
    x: "q_id x = question_id" "filter (\<lambda>q. q_id q = question_id) (questions d) = [x]" by blast
  then show ?thesis
    by (simp add: delete_question_try_def question_delete_def jsonify_def Let_def)
qed

text \<open>
  C2, as the handler behaves: for every question id absent from the store,
  \<^verbatim>\<open>DELETE /questions/{id}\<close> does raise NotFound (404) inside its \<^verbatim>\<open>try\<close> block, but the
  bare \<^verbatim>\<open>except\<close> around the block catches it and aborts with 422: the request fails with
  Unprocessable (HTTP 422) and the store is unchanged.
\<close>

theorem delete_question_absent_is_unprocessable:
  assumes "question_id \<notin> q_id ` set (questions d)"
  shows "delete_question_try request question_id d = (Inl (HTTPException 404), d)
         \<and> delete_question request question_id d = (Inl (HTTPException 422), d)
         \<and> snd (trivia_response (fst (delete_question request question_id d))) = 422"
  using delete_question_try_absent [OF assms, of request]
  by (simp add: delete_question_def try_except_def abort_def trivia_response_def
      unprocessable_def error_envelope_def)

theorem delete_question_absent_is_unprocessable_witness:
  "1000 \<notin> q_id ` set (questions sample_db)
   \<and> delete_question (page_request None) 1000 sample_db = (Inl (HTTPException 422), sample_db)
   \<and> snd (trivia_response (fst (delete_question (page_request None) 1000 sample_db))) = 422"
proof -
  have h: "1000 \<notin> q_id ` set (questions sample_db)"
    by (simp add: sample_db_def sample_questions_def sample_question_def)
  from delete_question_absent_is_unprocessable [OF h, of "page_request None"] h show ?thesis by blast
qed

text \<open>
  The claim C2 as stated, NotFound (HTTP 404) for an absent id, fails: question 1000 is
  not in the sample store and the response is not the 404 envelope.
\<close>

theorem delete_question_absent_not_404:
  "1000 \<notin> q_id ` set (questions sample_db)
   \<and> trivia_response (fst (delete_question (page_request None) 1000 sample_db)) \<noteq> not_found
   \<and> snd (trivia_response (fst (delete_question (page_request None) 1000 sample_db))) \<noteq> 404"
  by (simp add: sample_db_def sample_questions_def sample_question_def delete_question_def
      delete_question_try_def try_except_def abort_def trivia_response_def unprocessable_def
      not_found_def error_envelope_def)

text \<open>
  C3: for every question id absent from the store, \<^verbatim>\<open>DELETE /questions/{id}\<close> answers
  422 with the unprocessable envelope; for every id present in the store (ids being
  unique, as a primary key is) it answers 200 with \<open>deleted\<close> equal to that id, and the
  question is absent from the store afterwards, the other rows being kept.
\<close>

theorem delete_question_outcomes:
  "(question_id \<notin> q_id ` set (questions d) \<longrightarrow>
      trivia_response (fst (delete_question request question_id d)) =
        (Json (PDict
           [(PStr ''success'', PBool False), (PStr ''error'', PInt 422),
            (PStr ''message'', PStr ''unprocessable'')]), 422))
   \<and> (distinct (map q_id (questions d)) \<and> question_id \<in> q_id ` set (questions d) \<longrightarrow>
      trivia_response (fst (delete_question request question_id d)) =
        (Json (PDict [(PStr ''success'', PBool True), (PStr ''deleted'', PInt question_id)]), 200)
      \<and> question_id \<notin> q_id ` set (questions (snd (delete_question request question_id d)))
      \<and> questions (snd (delete_question request question_id d)) =
          filter (\<lambda>q. q_id q \<noteq> question_id) (questions d))"
proof (intro conjI impI)
  assume "question_id \<notin> q_id ` set (questions d)"
  from delete_question_try_absent [OF this, of request]
  show "trivia_response (fst (delete_question request question_id d)) =
        (Json (PDict
           [(PStr ''success'', PBool False), (PStr ''error'', PInt 422),
            (PStr ''message'', PStr ''unprocessable'')]), 422)"
    by (simp add: delete_question_def try_except_def abort_def trivia_response_def
        unprocessable_def error_envelope_def)
next
  assume "distinct (map q_id (questions d)) \<and> question_id \<in> q_id ` set (questions d)"
  then have p: "delete_question_try request question_id d =
           (Inr (PDict [(PStr ''success'', PBool True), (PStr ''deleted'', PInt question_id)]),
            d\<lparr>questions := filter (\<lambda>q. q_id q \<noteq> question_id) (questions d)\<rparr>)"
    by (intro delete_question_try_present) simp_all
  show "trivia_response (fst (delete_question request question_id d)) =
        (Json (PDict [(PStr ''success'', PBool True), (PStr ''deleted'', PInt question_id)]), 200)"
    using p by (simp add: delete_question_def try_except_def trivia_response_def)
  show "question_id \<notin> q_id ` set (questions (snd (delete_question request question_id d)))"
    using p by (auto simp: delete_question_def try_except_def)
  show "questions (snd (delete_question request question_id d)) =
          filter (\<lambda>q. q_id q \<noteq> question_id) (questions d)"
    using p by (simp add: delete_question_def try_except_def)
qed

theorem delete_question_outcomes_witness:
  "1000 \<notin> q_id ` set (questions sample_db)
   \<and> snd (trivia_response (fst (delete_question (page_request None) 1000 sample_db))) = 422
   \<and> distinct (map q_id (questions sample_db))
   \<and> 12 \<in> q_id ` set (questions sample_db)
   \<and> trivia_response (fst (delete_question (page_request None) 12 sample_db)) =
        (Json (PDict [(PStr ''success'', PBool True), (PStr ''deleted'', PInt 12)]), 200)
   \<and> 12 \<notin> q_id ` set (questions (snd (delete_question (page_request None) 12 sample_db)))
   \<and> length (questions (snd (delete_question (page_request None) 12 sample_db))) = 11"
proof -
  have a: "1000 \<notin> q_id ` set (questions sample_db)"
    by (simp add: sample_db_def sample_questions_def sample_question_def)
  have b: "distinct (map q_id (questions sample_db))"
    by (simp add: sample_db_def sample_questions_def sample_question_def)
  have c: "12 \<in> q_id ` set (questions sample_db)"
    by (simp add: sample_db_def sample_questions_def sample_question_def)
  have l: "length (filter (\<lambda>q. q_id q \<noteq> 12) (questions sample_db)) = 11"
    by (simp add: sample_db_def sample_questions_def sample_question_def)
  from delete_question_outcomes [of 1000 sample_db "page_request None"] a
  have r1: "trivia_response (fst (delete_question (page_request None) 1000 sample_db)) =
        (Json (PDict
           [(PStr ''success'', PBool False), (PStr ''error'', PInt 422),
            (PStr ''message'', PStr ''unprocessable'')]), 422)"
    by blast
  then have s1: "snd (trivia_response (fst (delete_question (page_request None) 1000 sample_db))) = 422"
    by simp
  from delete_question_outcomes [of 12 sample_db "page_request None"] b c
  have r2: "trivia_response (fst (delete_question (page_request None) 12 sample_db)) =
        (Json (PDict [(PStr ''success'', PBool True), (PStr ''deleted'', PInt 12)]), 200)"
    and r3: "12 \<notin> q_id ` set (questions (snd (delete_question (page_request None) 12 sample_db)))"
    and r4: "questions (snd (delete_question (page_request None) 12 sample_db)) =
          filter (\<lambda>q. q_id q \<noteq> 12) (questions sample_db)"
    by blast+
  from r4 l have s4: "length (questions (snd (delete_question (page_request None) 12 sample_db))) = 11"
    by simp
  from a s1 b c r2 r3 s4 show ?thesis by blast
qed


section \<open>The quiz question selector\<close>

lemma random_choice_Nil: "random_choice rnd [] = Inl IndexError"
  by (simp add: random_choice_def)

text \<open>
  C4: for every request to \<^verbatim>\<open>POST /quizzes\<close> whose \<open>previous_questions\<close> cover every
  question of the selected category (every question at all for category 0), which
  includes a category id that no question has, the random choice from the empty
  candidate list raises IndexError and the response is 500 with the internal-server-error
  envelope, not the 404 of the other empty-result paths.
\<close>

theorem create_quiz_empty_candidates:
  assumes "\<forall>q \<in> set (questions d).
             (quiz_category_id (get_json request) = 0
                \<or> q_category q = Some (quiz_category_id (get_json request)))
             \<longrightarrow> q_id q \<in> set (previous_questions (get_json request))"
  shows "create_quiz rnd request d = Inl IndexError
         \<and> trivia_response (create_quiz rnd request d) =
             (Json (PDict
                [(PStr ''success'', PBool False), (PStr ''error'', PInt 500),
                 (PStr ''message'', PStr ''internal server error'')]), 500)
         \<and> trivia_response (create_quiz rnd request d) \<noteq> not_found"
proof -
  have all: "quiz_category_id (get_json request) = 0 \<Longrightarrow>
      filter (\<lambda>q. q_id q \<notin> set (previous_questions (get_json request))) (questions d) = []"
    using assms by (auto simp: filter_empty_conv)
  have cat: "quiz_category_id (get_json request) \<noteq> 0 \<Longrightarrow>
      filter (\<lambda>q. q_category q = Some (quiz_category_id (get_json request))
                \<and> q_id q \<notin> set (previous_questions (get_json request))) (questions d) = []"
    using assms by (auto simp: filter_empty_conv)
  have raised: "create_quiz rnd request d = Inl IndexError"
    using all cat by (simp add: create_quiz_def Let_def random_choice_Nil)
  then show ?thesis
    by (simp add: trivia_response_def internal_server_error_def not_found_def
        error_envelope_def)
qed

theorem create_quiz_empty_candidates_witness:
  "filter (\<lambda>q. q_category q = Some 2 \<and> q_id q \<notin> set [12]) (questions sample_db) = []
   \<and> create_quiz 0 (quiz_request [12] 2) sample_db = Inl IndexError
   \<and> snd (trivia_response (create_quiz 0 (quiz_request [12] 2) sample_db)) = 500
   \<and> filter (\<lambda>q. q_category q = Some 7) (questions sample_db) = []
   \<and> create_quiz 0 (quiz_request [11, 13, 15] 7) sample_db = Inl IndexError
   \<and> snd (trivia_response (create_quiz 0 (quiz_request [11, 13, 15] 7) sample_db)) = 500"
proof -
  have f1: "filter (\<lambda>q. q_category q = Some 2 \<and> q_id q \<notin> set [12]) (questions sample_db) = []"
    and f2: "filter (\<lambda>q. q_category q = Some 7) (questions sample_db) = []"
    by (simp_all add: sample_db_def sample_questions_def sample_question_def)
  have h1: "\<forall>q \<in> set (questions sample_db).
      (quiz_category_id (get_json (quiz_request [12] 2)) = 0
         \<or> q_category q = Some (quiz_category_id (get_json (quiz_request [12] 2))))
      \<longrightarrow> q_id q \<in> set (previous_questions (get_json (quiz_request [12] 2)))"
    by (simp add: sample_db_def sample_questions_def sample_question_def quiz_request_def)
  have h2: "\<forall>q \<in> set (questions sample_db).
      (quiz_category_id (get_json (quiz_request [11, 13, 15] 7)) = 0
         \<or> q_category q = Some (quiz_category_id (get_json (quiz_request [11, 13, 15] 7))))
      \<longrightarrow> q_id q \<in> set (previous_questions (get_json (quiz_request [11, 13, 15] 7)))"
    by (simp add: sample_db_def sample_questions_def sample_question_def quiz_request_def)
  note t1 = create_quiz_empty_candidates [OF h1, of 0]
  from t1 have r1: "create_quiz 0 (quiz_request [12] 2) sample_db = Inl IndexError"
    by blast
  from t1 have "trivia_response (create_quiz 0 (quiz_request [12] 2) sample_db) =
       (Json (PDict
          [(PStr ''success'', PBool False), (PStr ''error'', PInt 500),
           (PStr ''message'', PStr ''internal server error'')]), 500)"
    by blast
  then have s1: "snd (trivia_response (create_quiz 0 (quiz_request [12] 2) sample_db)) = 500"
    by simp
  note t2 = create_quiz_empty_candidates [OF h2, of 0]
  from t2 have r2: "create_quiz 0 (quiz_request [11, 13, 15] 7) sample_db = Inl IndexError"
    by blast
  from t2 have "trivia_response (create_quiz 0 (quiz_request [11, 13, 15] 7) sample_db) =
       (Json (PDict
          [(PStr ''success'', PBool False), (PStr ''error'', PInt 500),
           (PStr ''message'', PStr ''internal server error'')]), 500)"
    by blast
  then have s2: "snd (trivia_response (create_quiz 0 (quiz_request [11, 13, 15] 7) sample_db)) = 500"
    by simp
  from f1 r1 s1 f2 r2 s2 show ?thesis by blast
qed

section \<open>Questions of a category\<close>




section \<open>Updating and deleting a drink\<close>

text \<open>
  C9: for every drink id with no matching row, \<^verbatim>\<open>PATCH /drinks/{id}\<close> and
  \<^verbatim>\<open>DELETE /drinks/{id}\<close>, once the permission check has succeeded, abort with 404
  before the \<^verbatim>\<open>try\<close> block that updates or deletes is entered: the response is the
  resource-not-found envelope with status 404 and the stored drinks are unchanged.
\<close>

theorem drinks_missing_is_not_found:
  assumes "drink_id \<notin> d_id ` set ds"
  shows "update_drinks None request drink_id ds = (Inl (HTTPException 404), ds)
         \<and> drinks_response (fst (update_drinks None request drink_id ds)) =
             (Json (PDict
                [(PStr ''success'', PBool False), (PStr ''error'', PInt 404),
                 (PStr ''message'', PStr ''resource not found'')]), 404)
         \<and> delete_drinks None request' drink_id ds = (Inl (HTTPException 404), ds)
         \<and> drinks_response (fst (delete_drinks None request' drink_id ds)) =
             (Json (PDict
                [(PStr ''success'', PBool False), (PStr ''error'', PInt 404),
                 (PStr ''message'', PStr ''resource not found'')]), 404)"
proof -
  have none: "filter (\<lambda>x. d_id x = drink_id) ds = []"
    using assms by (rule filter_absent_id)
  have u: "update_drinks None request drink_id ds = (Inl (HTTPException 404), ds)"
    by (simp add: update_drinks_def requires_auth_def none abort_def)
  have dl: "delete_drinks None request' drink_id ds = (Inl (HTTPException 404), ds)"
    by (simp add: delete_drinks_def requires_auth_def none abort_def)
  show ?thesis
    by (simp add: u dl drinks_response_def not_found_def error_envelope_def)
qed

theorem drinks_missing_is_not_found_witness:
  "7 \<notin> d_id ` set sample_drinks
   \<and> update_drinks None (patch_request ''mocha'') 7 sample_drinks =
       (Inl (HTTPException 404), sample_drinks)
   \<and> snd (drinks_response (fst (update_drinks None (patch_request ''mocha'') 7 sample_drinks))) = 404
   \<and> delete_drinks None (page_request None) 7 sample_drinks =
       (Inl (HTTPException 404), sample_drinks)
   \<and> snd (drinks_response (fst (delete_drinks None (page_request None) 7 sample_drinks))) = 404"
proof -
  have h: "7 \<notin> d_id ` set sample_drinks"
    by (simp add: sample_drinks_def)
  note t = drinks_missing_is_not_found [OF h, of "patch_request ''mocha''" "page_request None"]
  from t have u: "update_drinks None (patch_request ''mocha'') 7 sample_drinks =
       (Inl (HTTPException 404), sample_drinks)"
    and dl: "delete_drinks None (page_request None) 7 sample_drinks =
       (Inl (HTTPException 404), sample_drinks)"
    by blast+
  from t have "drinks_response (fst (update_drinks None (patch_request ''mocha'') 7 sample_drinks)) =
             (Json (PDict
                [(PStr ''success'', PBool False), (PStr ''error'', PInt 404),
                 (PStr ''message'', PStr ''resource not found'')]), 404)"
    by blast
  then have su: "snd (drinks_response
      (fst (update_drinks None (patch_request ''mocha'') 7 sample_drinks))) = 404"
    by simp
  from t have "drinks_response (fst (delete_drinks None (page_request None) 7 sample_drinks)) =
             (Json (PDict
                [(PStr ''success'', PBool False), (PStr ''error'', PInt 404),
                 (PStr ''message'', PStr ''resource not found'')]), 404)"
    by blast
  then have sd: "snd (drinks_response
      (fst (delete_drinks None (page_request None) 7 sample_drinks))) = 404"
    by simp
  from h u su dl sd show ?thesis by blast
qed

section \<open>Searching questions\<close>

lemma like_match_percent: "like_match ''%'' s"
  by (induction s) auto

lemma like_match_percent_Cons:
  "like_match (CHR ''%'' # ps) s \<longleftrightarrow> (\<exists>pre r. s = pre @ r \<and> like_match ps r)"
proof (induction s)
  case Nil
  then show ?case by simp
next
  case (Cons x xs)
  show ?case
  proof
    assume "like_match (CHR ''%'' # ps) (x # xs)"
    then consider "like_match ps (x # xs)" | "like_match (CHR ''%'' # ps) xs" by auto
    then show "\<exists>pre r. x # xs = pre @ r \<and> like_match ps r"
    proof cases
      case 1
      then have "x # xs = [] @ (x # xs) \<and> like_match ps (x # xs)" by simp
      then show ?thesis by blast
    next
      case 2
      with Cons.IH obtain pre r where "xs = pre @ r" "like_match ps r" by blast
      then have "x # xs = (x # pre) @ r \<and> like_match ps r" by simp
      then show ?thesis by blast
    qed
  next
    assume "\<exists>pre r. x # xs = pre @ r \<and> like_match ps r"
    then obtain pre r where pr: "x # xs = pre @ r" "like_match ps r" by blast
    show "like_match (CHR ''%'' # ps) (x # xs)"
    proof (cases pre)
      case Nil
      with pr have "like_match ps (x # xs)" by simp
      then show ?thesis by simp
    next
      case (Cons a pre')
      with pr have "xs = pre' @ r" by simp
      with pr Cons.IH have "like_match (CHR ''%'' # ps) xs" by blast
      then show ?thesis by simp
    qed
  qed
qed

lemma like_match_literal:
  "\<forall>c \<in> set t. \<not> like_special c \<Longrightarrow>
     like_match (t @ ps) s \<longleftrightarrow> (\<exists>r. s = t @ r \<and> like_match ps r)"
proof (induction t arbitrary: s)
  case Nil
  then show ?case by simp
next
  case (Cons c t)
  then have c: "c \<noteq> CHR ''%''" "c \<noteq> CHR ''_''" "c \<noteq> CHR 0x5C"
    by (auto simp: like_special_def)
  from Cons.prems have t: "\<forall>c \<in> set t. \<not> like_special c" by simp
  show ?case
  proof (cases s)
    case Nil
    with c show ?thesis by simp
  next
    case (Cons x xs)
    with c Cons.IH [OF t, of xs] show ?thesis by auto
  qed
qed

lemma like_match_contains:
  assumes "\<forall>c \<in> set t. \<not> like_special c"
  shows "like_match (''%'' @ t @ ''%'') s \<longleftrightarrow> sublist t s"
proof -
  have "like_match (''%'' @ t @ ''%'') s \<longleftrightarrow>
          (\<exists>pre r. s = pre @ r \<and> like_match (t @ ''%'') r)"
    using like_match_percent_Cons [of "t @ ''%''" s] by simp
  also have "\<dots> \<longleftrightarrow> (\<exists>pre r. s = pre @ r \<and> (\<exists>r'. r = t @ r'))"
    by (simp add: like_match_literal [OF assms] like_match_percent)
  also have "\<dots> \<longleftrightarrow> sublist t s"
    by (auto simp: sublist_def)
  finally show ?thesis .
qed

lemma lower_char_special: "like_special (lower_char c) \<longleftrightarrow> like_special c"
  by (auto simp: lower_char_def like_special_def)


lemma lower_plain: "\<forall>c \<in> set t. \<not> like_special c \<Longrightarrow> \<forall>c \<in> set (lower t). \<not> like_special c"
  by (simp add: lower_def lower_char_special)

lemma lower_pattern: "lower (CHR ''%'' # t @ ''%'') = CHR ''%'' # lower t @ ''%''"
  by (simp add: lower_def lower_char_def)

lemma ilike_contains:
  assumes "\<forall>c \<in> set t. \<not> like_special c"
  shows "ilike col (CHR ''%'' # t @ ''%'') = contains_ci t col"
  using like_match_contains [OF lower_plain [OF assms]]
  by (simp add: ilike_def contains_ci_def lower_pattern split: option.split)

lemma search_response:
  assumes "b_searchTerm (get_json request) = Some t" "t \<noteq> []"
  shows "create_questions request d =
           (Inr (PDict
              [(PStr ''success'', PBool True),
               (PStr ''questions'', PList (paginated_questions request
                  (filter (\<lambda>q. ilike (q_question q) (''%'' @ t @ ''%''))
                     (order_by_id (questions d))))),
               (PStr ''total_questions'', PInt (int (length
                  (filter (\<lambda>q. ilike (q_question q) (''%'' @ t @ ''%'')) (questions d))))),
               (PStr ''current_category'', PStr ''All'')]), d)"
proof -
  have "length (filter (\<lambda>q. ilike (q_question q) (''%'' @ t @ ''%'')) (order_by_id (questions d)))
        = length (filter (\<lambda>q. ilike (q_question q) (''%'' @ t @ ''%'')) (questions d))"
    by (simp add: order_by_id_def filter_sort)
  with assms show ?thesis
    by (simp add: create_questions_def try_except_def jsonify_def Let_def)
qed

text \<open>
  Where the search does what the docstring of \<^verbatim>\<open>create_questions\<close> says: for a
  non-empty term without \<open>%\<close>, \<open>_\<close> and backslash the response is 200 with one page of
  the questions whose text contains the term, case ignored, and \<open>total_questions\<close> is the
  number of all of them.
\<close>

lemma search_plain_term:
  assumes "b_searchTerm (get_json request) = Some t" "t \<noteq> []"
    and "\<forall>c \<in> set t. \<not> like_special c"
  shows "trivia_response (fst (create_questions request d)) =
           (Json (PDict
              [(PStr ''success'', PBool True),
               (PStr ''questions'', PList (paginated_questions request
                  (filter (\<lambda>q. contains_ci t (q_question q)) (order_by_id (questions d))))),
               (PStr ''total_questions'', PInt (int (length
                  (filter (\<lambda>q. contains_ci t (q_question q)) (questions d))))),
               (PStr ''current_category'', PStr ''All'')]), 200)
         \<and> length (paginated_questions request
               (filter (\<lambda>q. contains_ci t (q_question q)) (order_by_id (questions d)))) \<le> 10
         \<and> snd (create_questions request d) = d"
  by (simp add: search_response [OF assms(1,2)] trivia_response_def
      ilike_contains [OF assms(3)] length_paginated_questions)

text \<open>
  C5: \<open>total_questions\<close> of a search is to be the number of all questions whose text
  contains the term as a case-insensitive substring, for every search term. The handler
  misses this at two terms, shown on the store whose one question is \<open>abc\<close>. The term
  \<open>_\<close> goes unescaped into the ILIKE pattern and acts as a wildcard: no question
  contains an underscore, yet the response lists the question and \<open>total_questions\<close>
  is 1. The empty term is false in \<^verbatim>\<open>if search:\<close>: the question contains the empty
  string, yet the request takes the branch that creates a question, the response is
  \<open>{success: true}\<close> without \<open>total_questions\<close>, and a row of NULL columns is stored.
\<close>

theorem search_term_defects:
  "length (filter (\<lambda>q. contains_ci ''_'' (q_question q)) (questions tiny_db)) = 0
   \<and> response_field ''questions''
        (trivia_response (fst (create_questions (search_request ''_'') tiny_db)))
       = Some (PList [format (sample_question 1 ''abc'' 1)])
   \<and> response_field ''total_questions''
        (trivia_response (fst (create_questions (search_request ''_'') tiny_db))) = Some (PInt 1)
   \<and> length (filter (\<lambda>q. contains_ci [] (q_question q)) (questions tiny_db)) = 1
   \<and> trivia_response (fst (create_questions (search_request []) tiny_db)) =
        (Json (PDict [(PStr ''success'', PBool True)]), 200)
   \<and> response_field ''total_questions''
        (trivia_response (fst (create_questions (search_request []) tiny_db))) = None
   \<and> questions (snd (create_questions (search_request []) tiny_db)) =
        [sample_question 1 ''abc'' 1,
         \<lparr>q_id = 2, q_question = None, q_answer = None, q_category = None,
          q_difficulty = None\<rparr>]"
  by (simp add: tiny_db_def sample_question_def contains_ci_def lower_def lower_char_def
      sublist_Cons_right response_field_def trivia_response_def create_questions_def
      search_request_def try_except_def jsonify_def ilike_def order_by_id_def
      question_insert_def fresh_id_def paginated_questions_def page_arg_def
      QUESTIONS_PER_PAGE_def py_slice_def adjust_index_def format_def Let_def)

lemma paginated_questions_Nil: "paginated_questions request [] = []"
  by (simp add: paginated_questions_def py_slice_def adjust_index_def Let_def)

text \<open>
  Where a search without matches does what is asked: for every non-empty term, wildcards
  included, that matches no question under the pattern \<open>%term%\<close>, the response is 200
  with \<open>questions\<close> the empty list and \<open>total_questions\<close> 0, and the store is unchanged.
\<close>

lemma search_without_ilike_matches:
  assumes "b_searchTerm (get_json request) = Some t" "t \<noteq> []"
    and "\<forall>q \<in> set (questions d). \<not> ilike (q_question q) (''%'' @ t @ ''%'')"
  shows "trivia_response (fst (create_questions request d)) =
           (Json (PDict
              [(PStr ''success'', PBool True),
               (PStr ''questions'', PList []),
               (PStr ''total_questions'', PInt 0),
               (PStr ''current_category'', PStr ''All'')]), 200)
         \<and> snd (create_questions request d) = d"
proof -
  from assms(3)
  have e: "filter (\<lambda>q. ilike (q_question q) (''%'' @ t @ ''%'')) (questions d) = []"
    by (simp add: filter_empty_conv)
  from assms(3)
  have "filter (\<lambda>q. ilike (q_question q) (''%'' @ t @ ''%'')) (order_by_id (questions d)) = []"
    by (simp add: filter_empty_conv order_by_id_def)
  with e show ?thesis
    by (simp add: search_response [OF assms(1,2)] trivia_response_def paginated_questions_Nil)
qed

text \<open>
  C6: a search whose term matches no question is to answer 200 with \<open>questions\<close> the
  empty list and \<open>total_questions\<close> 0, for every search term. The handler misses this at
  the empty term: on a store without questions nothing matches, but the empty string is
  false in \<^verbatim>\<open>if search:\<close>, so the request takes the branch that creates a question: the
  response is \<open>{success: true}\<close> with neither \<open>questions\<close> nor \<open>total_questions\<close>, and
  a row of NULL columns is stored.
\<close>

theorem search_empty_term_creates_question:
  "questions empty_db = []
   \<and> trivia_response (fst (create_questions (search_request []) empty_db)) =
        (Json (PDict [(PStr ''success'', PBool True)]), 200)
   \<and> response_field ''questions''
        (trivia_response (fst (create_questions (search_request []) empty_db))) = None
   \<and> response_field ''total_questions''
        (trivia_response (fst (create_questions (search_request []) empty_db))) = None
   \<and> questions (snd (create_questions (search_request []) empty_db)) =
        [\<lparr>q_id = 1, q_question = None, q_answer = None, q_category = None,
          q_difficulty = None\<rparr>]"
  by (simp add: empty_db_def response_field_def trivia_response_def create_questions_def
      search_request_def try_except_def jsonify_def question_insert_def fresh_id_def Let_def)

end
